theory Spec2Isabelle
  imports Main "HOL-Library.Word"
begin

section \<open>SBPlatform.cpp: the data model\<close>

text \<open>
  A \<^verbatim>\<open>const char *\<close> argument or return value is a \<open>string option\<close>:
  \<open>None\<close> is \<^verbatim>\<open>nullptr\<close>, \<open>Some s\<close> points at the characters \<open>s\<close> before the
  terminating NUL. The test \<^verbatim>\<open>p && p[0]\<close> of the source is "\<open>Some s\<close> with
  \<open>s \<noteq> []\<close>". A \<^verbatim>\<open>std::string\<close> member is a \<open>string\<close>; \<^verbatim>\<open>clear()\<close> stores \<open>[]\<close>.
\<close>

type_synonym cstr = "string option"

text \<open>
  \<^verbatim>\<open>ConstString\<close> (declared in lldb/Utility/ConstString.h) is an interned character
  pointer: a default-constructed one holds \<^verbatim>\<open>nullptr\<close>, \<^verbatim>\<open>SetCString(p)\<close> makes it
  point at a copy of \<^verbatim>\<open>p\<close>, \<^verbatim>\<open>GetCString()\<close> returns the pointer.
\<close>

type_synonym ConstString = cstr

text \<open>\<^verbatim>\<open>struct PlatformConnectOptions\<close>, lines 32-46.\<close>

record PlatformConnectOptions =
  m_url :: string
  m_rsync_options :: string
  m_rsync_remote_path_prefix :: string
  m_rsync_enabled :: bool
  m_rsync_omit_hostname_from_remote_path :: bool
  m_local_cache_directory :: ConstString

text \<open>
  \<^verbatim>\<open>Timeout<std::ratio<1>>\<close> (lldb/Utility/Timeout.h) is an optional
  \<^verbatim>\<open>std::chrono::duration<int64_t>\<close>: \<open>None\<close> is \<^verbatim>\<open>llvm::None\<close>, \<open>Some c\<close> holds
  the 64-bit tick count \<open>c\<close>. A C \<^verbatim>\<open>int\<close> is a 32-bit word (read with \<open>sint\<close>).
\<close>

type_synonym Timeout = "64 word option"

text \<open>\<^verbatim>\<open>struct PlatformShellCommand\<close>, lines 49-74.\<close>

record PlatformShellCommand =
  m_shell :: string
  m_command :: string
  m_working_dir :: string
  m_output :: string
  m_status :: "32 word"
  m_signo :: "32 word"
  m_timeout :: Timeout

text \<open>
  \<^verbatim>\<open>llvm::StringRef(const char *)\<close>: a null pointer gives the empty reference.
\<close>

definition StringRef :: "cstr \<Rightarrow> string" where
  "StringRef p = (case p of None \<Rightarrow> [] | Some s \<Rightarrow> s)"

section \<open>PlatformConnectOptions and SBPlatformConnectOptions\<close>

text \<open>The constructor of line 33: every member default-initialised, then the URL.\<close>

definition PlatformConnectOptions_new :: "cstr \<Rightarrow> PlatformConnectOptions" where
  "PlatformConnectOptions_new url =
     \<lparr> m_url = (case url of Some s \<Rightarrow> if s \<noteq> [] then s else [] | None \<Rightarrow> []),
       m_rsync_options = [],
       m_rsync_remote_path_prefix = [],
       m_rsync_enabled = False,
       m_rsync_omit_hostname_from_remote_path = False,
       m_local_cache_directory = None \<rparr>"

definition SBPlatformConnectOptions_GetURL :: "PlatformConnectOptions \<Rightarrow> cstr" where
  "SBPlatformConnectOptions_GetURL opts =
     (if m_url opts = [] then None else Some (m_url opts))"

definition SBPlatformConnectOptions_SetURL ::
  "cstr \<Rightarrow> PlatformConnectOptions \<Rightarrow> PlatformConnectOptions" where
  "SBPlatformConnectOptions_SetURL url opts =
     (case url of
        Some s \<Rightarrow> if s \<noteq> [] then opts\<lparr>m_url := s\<rparr> else opts\<lparr>m_url := []\<rparr>
      | None \<Rightarrow> opts\<lparr>m_url := []\<rparr>)"

definition SBPlatformConnectOptions_GetRsyncEnabled :: "PlatformConnectOptions \<Rightarrow> bool" where
  "SBPlatformConnectOptions_GetRsyncEnabled opts = m_rsync_enabled opts"

definition SBPlatformConnectOptions_EnableRsync ::
  "cstr \<Rightarrow> cstr \<Rightarrow> bool \<Rightarrow> PlatformConnectOptions \<Rightarrow> PlatformConnectOptions" where
  "SBPlatformConnectOptions_EnableRsync options remote_path_prefix omit_hostname opts =
     opts\<lparr> m_rsync_enabled := True,
           m_rsync_omit_hostname_from_remote_path := omit_hostname,
           m_rsync_remote_path_prefix :=
             (case remote_path_prefix of Some s \<Rightarrow> if s \<noteq> [] then s else [] | None \<Rightarrow> []),
           m_rsync_options :=
             (case options of Some s \<Rightarrow> if s \<noteq> [] then s else [] | None \<Rightarrow> []) \<rparr>"

definition SBPlatformConnectOptions_DisableRsync ::
  "PlatformConnectOptions \<Rightarrow> PlatformConnectOptions" where
  "SBPlatformConnectOptions_DisableRsync opts = opts\<lparr>m_rsync_enabled := False\<rparr>"

definition SBPlatformConnectOptions_GetLocalCacheDirectory ::
  "PlatformConnectOptions \<Rightarrow> cstr" where
  "SBPlatformConnectOptions_GetLocalCacheDirectory opts = m_local_cache_directory opts"

definition SBPlatformConnectOptions_SetLocalCacheDirectory ::
  "cstr \<Rightarrow> PlatformConnectOptions \<Rightarrow> PlatformConnectOptions" where
  "SBPlatformConnectOptions_SetLocalCacheDirectory path opts =
     (case path of
        Some s \<Rightarrow> if s \<noteq> [] then opts\<lparr>m_local_cache_directory := Some s\<rparr>
                  else opts\<lparr>m_local_cache_directory := None\<rparr>
      | None \<Rightarrow> opts\<lparr>m_local_cache_directory := None\<rparr>)"

section \<open>PlatformShellCommand and SBPlatformShellCommand\<close>

text \<open>
  The two-argument constructor of lines 50-58. The members start from their default
  initialisers (empty strings, no timeout); the command is tested against \<open>m_shell\<close>
  as it is after the first assignment.
\<close>

definition PlatformShellCommand_new2 :: "string \<Rightarrow> string \<Rightarrow> PlatformShellCommand" where
  "PlatformShellCommand_new2 shell_interpreter shell_command =
     (let c0 = \<lparr> m_shell = [], m_command = [], m_working_dir = [], m_output = [],
                 m_status = 0, m_signo = 0, m_timeout = None \<rparr>;
          c1 = (if shell_interpreter \<noteq> [] then c0\<lparr>m_shell := shell_interpreter\<rparr> else c0)
      in if m_shell c1 \<noteq> [] \<and> shell_command \<noteq> []
         then c1\<lparr>m_command := shell_command\<rparr> else c1)"

text \<open>The one-argument constructor of lines 60-63.\<close>

definition PlatformShellCommand_new1 :: "string \<Rightarrow> PlatformShellCommand" where
  "PlatformShellCommand_new1 shell_command =
     (let c0 = \<lparr> m_shell = [], m_command = [], m_working_dir = [], m_output = [],
                 m_status = 0, m_signo = 0, m_timeout = None \<rparr>
      in if shell_command \<noteq> [] then c0\<lparr>m_command := shell_command\<rparr> else c0)"

text \<open>
  The constructors of \<^verbatim>\<open>SBPlatformShellCommand\<close> (lines 173-184) pass their
  \<^verbatim>\<open>const char *\<close> arguments through \<^verbatim>\<open>llvm::StringRef\<close>.
\<close>

definition SBPlatformShellCommand_new2 :: "cstr \<Rightarrow> cstr \<Rightarrow> PlatformShellCommand" where
  "SBPlatformShellCommand_new2 shell_interpreter shell_command =
     PlatformShellCommand_new2 (StringRef shell_interpreter) (StringRef shell_command)"

definition SBPlatformShellCommand_new1 :: "cstr \<Rightarrow> PlatformShellCommand" where
  "SBPlatformShellCommand_new1 shell_command =
     PlatformShellCommand_new1 (StringRef shell_command)"

definition SBPlatformShellCommand_Clear :: "PlatformShellCommand \<Rightarrow> PlatformShellCommand" where
  "SBPlatformShellCommand_Clear c = c\<lparr>m_output := [], m_status := 0, m_signo := 0\<rparr>"

definition SBPlatformShellCommand_GetShell :: "PlatformShellCommand \<Rightarrow> cstr" where
  "SBPlatformShellCommand_GetShell c = (if m_shell c = [] then None else Some (m_shell c))"

definition SBPlatformShellCommand_SetShell ::
  "cstr \<Rightarrow> PlatformShellCommand \<Rightarrow> PlatformShellCommand" where
  "SBPlatformShellCommand_SetShell shell_interpreter c =
     (case shell_interpreter of
        Some s \<Rightarrow> if s \<noteq> [] then c\<lparr>m_shell := s\<rparr> else c\<lparr>m_shell := []\<rparr>
      | None \<Rightarrow> c\<lparr>m_shell := []\<rparr>)"

definition SBPlatformShellCommand_GetCommand :: "PlatformShellCommand \<Rightarrow> cstr" where
  "SBPlatformShellCommand_GetCommand c =
     (if m_command c = [] then None else Some (m_command c))"

definition SBPlatformShellCommand_SetCommand ::
  "cstr \<Rightarrow> PlatformShellCommand \<Rightarrow> PlatformShellCommand" where
  "SBPlatformShellCommand_SetCommand shell_command c =
     (case shell_command of
        Some s \<Rightarrow> if s \<noteq> [] then c\<lparr>m_command := s\<rparr> else c\<lparr>m_command := []\<rparr>
      | None \<Rightarrow> c\<lparr>m_command := []\<rparr>)"

definition SBPlatformShellCommand_GetWorkingDirectory :: "PlatformShellCommand \<Rightarrow> cstr" where
  "SBPlatformShellCommand_GetWorkingDirectory c =
     (if m_working_dir c = [] then None else Some (m_working_dir c))"

definition SBPlatformShellCommand_SetWorkingDirectory ::
  "cstr \<Rightarrow> PlatformShellCommand \<Rightarrow> PlatformShellCommand" where
  "SBPlatformShellCommand_SetWorkingDirectory path c =
     (case path of
        Some s \<Rightarrow> if s \<noteq> [] then c\<lparr>m_working_dir := s\<rparr> else c\<lparr>m_working_dir := []\<rparr>
      | None \<Rightarrow> c\<lparr>m_working_dir := []\<rparr>)"

text \<open>
  \<^verbatim>\<open>UINT32_MAX\<close> is \<open>0xFFFFFFFF\<close>. \<^verbatim>\<open>std::chrono::seconds(sec)\<close> widens the
  unsigned 32-bit argument to the 64-bit tick count; \<^verbatim>\<open>count()\<close> is narrowed back to
  \<^verbatim>\<open>uint32_t\<close> by the return.
\<close>

definition UINT32_MAX :: "32 word" where
  "UINT32_MAX = 0xFFFFFFFF"

definition SBPlatformShellCommand_GetTimeoutSeconds :: "PlatformShellCommand \<Rightarrow> 32 word" where
  "SBPlatformShellCommand_GetTimeoutSeconds c =
     (case m_timeout c of Some count \<Rightarrow> ucast count | None \<Rightarrow> UINT32_MAX)"

definition SBPlatformShellCommand_SetTimeoutSeconds ::
  "32 word \<Rightarrow> PlatformShellCommand \<Rightarrow> PlatformShellCommand" where
  "SBPlatformShellCommand_SetTimeoutSeconds sec c =
     (if sec = UINT32_MAX then c\<lparr>m_timeout := None\<rparr>
      else c\<lparr>m_timeout := Some (ucast sec)\<rparr>)"

definition SBPlatformShellCommand_GetSignal :: "PlatformShellCommand \<Rightarrow> 32 word" where
  "SBPlatformShellCommand_GetSignal c = m_signo c"

definition SBPlatformShellCommand_GetStatus :: "PlatformShellCommand \<Rightarrow> 32 word" where
  "SBPlatformShellCommand_GetStatus c = m_status c"

definition SBPlatformShellCommand_GetOutput :: "PlatformShellCommand \<Rightarrow> cstr" where
  "SBPlatformShellCommand_GetOutput c = (if m_output c = [] then None else Some (m_output c))"

section \<open>The collaborators of SBPlatform\<close>

text \<open>
  \<^verbatim>\<open>Status\<close> (lldb/Utility/Status.h): a default-constructed one is success,
  \<^verbatim>\<open>Status("...")\<close>, \<^verbatim>\<open>SetErrorString\<close> and \<^verbatim>\<open>SetErrorStringWithFormat\<close> make a
  failure with the given message. \<^verbatim>\<open>SBError\<close> wraps a \<^verbatim>\<open>Status\<close>; a fresh
  \<^verbatim>\<open>SBError\<close> is success.
\<close>

datatype Status = Status_OK | Status_Error string

type_synonym SBError = Status

text \<open>
  \<^verbatim>\<open>FileSpec\<close> (lldb/Utility/FileSpec.h) is the path it was built from; an
  \<^verbatim>\<open>SBFileSpec\<close> wraps one. Built from a null \<^verbatim>\<open>const char *\<close> it is the empty path.
\<close>

datatype FileSpec = FileSpec string

fun GetPath :: "FileSpec \<Rightarrow> string" where
  "GetPath (FileSpec path) = path"

definition FileSpec_of_cstr :: "cstr \<Rightarrow> FileSpec" where
  "FileSpec_of_cstr p = FileSpec (StringRef p)"

type_synonym Args = "string list"

type_synonym pid_t = "64 word"

text \<open>
  The three out-parameters of \<^verbatim>\<open>RunShellCommand\<close>: \<^verbatim>\<open>*status_ptr\<close>,
  \<^verbatim>\<open>*signo_ptr\<close>, \<^verbatim>\<open>*command_output\<close>.
\<close>

type_synonym ShellResult = "32 word \<times> 32 word \<times> string"

text \<open>
  The virtual interface of \<^verbatim>\<open>lldb_private::Platform\<close> (lldb/Target/Platform.h) that
  this file calls: the transport. Its implementations are not part of the file, so it
  is a parameter: \<open>'p\<close> is the state of the platform object, \<open>'l\<close> is
  \<^verbatim>\<open>ProcessLaunchInfo\<close>. A primitive that can change the platform object returns its
  new state beside its result.
\<close>

record ('p, 'l) Platform =
  Platform_IsConnected :: "'p \<Rightarrow> bool"
  Platform_GetWorkingDirectory :: "'p \<Rightarrow> cstr"
  Platform_ConnectRemote :: "Args \<Rightarrow> 'p \<Rightarrow> Status \<times> 'p"
  Platform_GetFile :: "FileSpec \<Rightarrow> FileSpec \<Rightarrow> 'p \<Rightarrow> Status \<times> 'p"
  Platform_PutFile :: "FileSpec \<Rightarrow> FileSpec \<Rightarrow> 32 word \<Rightarrow> 'p \<Rightarrow> Status \<times> 'p"
  Platform_Install :: "FileSpec \<Rightarrow> FileSpec \<Rightarrow> 'p \<Rightarrow> Status \<times> 'p"
  Platform_RunShellCommand ::
    "string \<Rightarrow> string \<Rightarrow> FileSpec \<Rightarrow> ShellResult \<Rightarrow> Timeout \<Rightarrow> 'p \<Rightarrow> (Status \<times> ShellResult) \<times> 'p"
  Platform_LaunchProcess :: "'l \<Rightarrow> 'p \<Rightarrow> (Status \<times> 'l) \<times> 'p"
  Platform_KillProcess :: "pid_t \<Rightarrow> 'p \<Rightarrow> Status \<times> 'p"

text \<open>
  The local file system (\<^verbatim>\<open>FileSystem::Instance()\<close>, lldb/Host/FileSystem.h) as
  \<^verbatim>\<open>Put\<close> and \<^verbatim>\<open>Install\<close> query it; \<^verbatim>\<open>SBFileSpec::Exists\<close> asks it too.
\<close>

record FileSystem =
  FileSystem_Exists :: "FileSpec \<Rightarrow> bool"
  FileSystem_GetPermissions :: "FileSpec \<Rightarrow> 32 word"
  FileSystem_IsDirectory :: "FileSpec \<Rightarrow> bool"

text \<open>
  The two enumerators of \<^verbatim>\<open>lldb::FilePermissions\<close> (lldb/lldb-enumerations.h) that
  \<^verbatim>\<open>Put\<close> uses. Their values are declared outside this file: they are parameters.
\<close>

record FilePermissions =
  eFilePermissionsFileDefault :: "32 word"
  eFilePermissionsDirectoryDefault :: "32 word"

text \<open>
  One entry per call of a \<^verbatim>\<open>Platform\<close> primitive, with its arguments (the
  out-parameters of \<^verbatim>\<open>RunShellCommand\<close> left out).
\<close>

datatype 'l TransportCall =
    Call_ConnectRemote Args
  | Call_GetFile FileSpec FileSpec
  | Call_PutFile FileSpec FileSpec "32 word"
  | Call_Install FileSpec FileSpec
  | Call_RunShellCommand string string FileSpec Timeout
  | Call_LaunchProcess 'l
  | Call_KillProcess pid_t

text \<open>
  \<^verbatim>\<open>SBPlatform\<close> holds \<open>m_opaque_sp\<close>, a shared pointer that is null (\<open>None\<close>, the
  invalid identity) or points at a platform object in state \<open>p\<close> (\<open>Some p\<close>).
  \<open>transport_calls\<close> is history, not a member of the class: the calls of
  \<^verbatim>\<open>Platform\<close> primitives made so far, oldest first. It is what "no call to the
  transport" is stated on.
\<close>

record ('p, 'l) SBPlatform =
  m_opaque_sp :: "'p option"
  transport_calls :: "'l TransportCall list"

section \<open>SBPlatform\<close>

text \<open>
  \<open>delegate c f\<close> is the call \<^verbatim>\<open>platform_sp->f(...)\<close>: it runs the primitive \<open>f\<close> on
  the platform object and appends \<open>c\<close> to the history.
\<close>

definition delegate ::
  "'l TransportCall \<Rightarrow> ('p \<Rightarrow> 'a \<times> 'p) \<Rightarrow> 'p \<times> 'l TransportCall list
     \<Rightarrow> 'a \<times> ('p \<times> 'l TransportCall list)" where
  "delegate c f = (\<lambda>(p, tr). case f p of (r, p') \<Rightarrow> (r, (p', tr @ [c])))"

definition SBPlatform_IsValid :: "('p, 'l) SBPlatform \<Rightarrow> bool" where
  "SBPlatform_IsValid sb = (m_opaque_sp sb \<noteq> None)"

definition SBPlatform_IsConnected :: "('p, 'l) Platform \<Rightarrow> ('p, 'l) SBPlatform \<Rightarrow> bool" where
  "SBPlatform_IsConnected T sb =
     (case m_opaque_sp sb of
        Some platform_sp \<Rightarrow> Platform_IsConnected T platform_sp
      | None \<Rightarrow> False)"

definition SBPlatform_GetWorkingDirectory ::
  "('p, 'l) Platform \<Rightarrow> ('p, 'l) SBPlatform \<Rightarrow> cstr" where
  "SBPlatform_GetWorkingDirectory T sb =
     (case m_opaque_sp sb of
        Some platform_sp \<Rightarrow> Platform_GetWorkingDirectory T platform_sp
      | None \<Rightarrow> None)"

text \<open>
  \<^verbatim>\<open>ConnectRemote\<close>, lines 402-416. \<^verbatim>\<open>Args\<close> starts empty and gets the URL
  appended.
\<close>

definition SBPlatform_ConnectRemote ::
  "('p, 'l) Platform \<Rightarrow> PlatformConnectOptions \<Rightarrow> ('p, 'l) SBPlatform
     \<Rightarrow> SBError \<times> ('p, 'l) SBPlatform" where
  "SBPlatform_ConnectRemote T connect_options sb =
     (case m_opaque_sp sb of
        Some platform_sp \<Rightarrow>
          (case SBPlatformConnectOptions_GetURL connect_options of
             Some url \<Rightarrow>
               (let args = [] @ [url]
                in case delegate (Call_ConnectRemote args) (Platform_ConnectRemote T args)
                          (platform_sp, transport_calls sb) of
                     (st, (p', tr')) \<Rightarrow> (st, sb\<lparr>m_opaque_sp := Some p', transport_calls := tr'\<rparr>))
           | None \<Rightarrow> (Status_Error ''invalid platform'', sb))
      | None \<Rightarrow> (Status_Error ''invalid platform'', sb))"

text \<open>\<^verbatim>\<open>Get\<close>, lines 522-534.\<close>

definition SBPlatform_Get ::
  "('p, 'l) Platform \<Rightarrow> FileSpec \<Rightarrow> FileSpec \<Rightarrow> ('p, 'l) SBPlatform
     \<Rightarrow> SBError \<times> ('p, 'l) SBPlatform" where
  "SBPlatform_Get T src dst sb =
     (case m_opaque_sp sb of
        Some platform_sp \<Rightarrow>
          (case delegate (Call_GetFile src dst) (Platform_GetFile T src dst)
                  (platform_sp, transport_calls sb) of
             (st, (p', tr')) \<Rightarrow> (st, sb\<lparr>m_opaque_sp := Some p', transport_calls := tr'\<rparr>))
      | None \<Rightarrow> (Status_Error ''invalid platform'', sb))"

text \<open>
  \<^verbatim>\<open>ExecuteConnected\<close>, lines 615-628. The closure \<open>func\<close> gets the platform object
  (with the history) and returns its \<^verbatim>\<open>Status\<close> together with the objects it
  captured by reference, as it leaves them; \<open>captured\<close> is those objects as they are
  when the closure does not run.
\<close>

definition SBPlatform_ExecuteConnected ::
  "('p, 'l) Platform
     \<Rightarrow> ('p \<times> 'l TransportCall list \<Rightarrow> (Status \<times> 'c) \<times> ('p \<times> 'l TransportCall list))
     \<Rightarrow> 'c \<Rightarrow> ('p, 'l) SBPlatform \<Rightarrow> (SBError \<times> 'c) \<times> ('p, 'l) SBPlatform" where
  "SBPlatform_ExecuteConnected T func captured sb =
     (case m_opaque_sp sb of
        Some platform_sp \<Rightarrow>
          if Platform_IsConnected T platform_sp
          then (case func (platform_sp, transport_calls sb) of
                  (r, (p', tr')) \<Rightarrow> (r, sb\<lparr>m_opaque_sp := Some p', transport_calls := tr'\<rparr>))
          else ((Status_Error ''not connected'', captured), sb)
      | None \<Rightarrow> ((Status_Error ''invalid platform'', captured), sb))"

text \<open>
  The message of \<^verbatim>\<open>SetErrorStringWithFormat("'src' argument doesn't exist: '%s'", path)\<close>.
\<close>

definition src_doesnt_exist :: "string \<Rightarrow> string" where
  "src_doesnt_exist path =
     [CHR 0x27] @ ''src'' @ [CHR 0x27] @ '' argument doesn't exist: '' @
     [CHR 0x27] @ path @ [CHR 0x27]"

text \<open>A closure that captures nothing it changes returns \<open>()\<close> beside its status.\<close>

definition no_capture :: "Status \<times> 's \<Rightarrow> (Status \<times> unit) \<times> 's" where
  "no_capture r = ((fst r, ()), snd r)"

text \<open>\<^verbatim>\<open>Put\<close>, lines 536-557.\<close>

definition SBPlatform_Put ::
  "FileSystem \<Rightarrow> FilePermissions \<Rightarrow> ('p, 'l) Platform \<Rightarrow> FileSpec \<Rightarrow> FileSpec
     \<Rightarrow> ('p, 'l) SBPlatform \<Rightarrow> SBError \<times> ('p, 'l) SBPlatform" where
  "SBPlatform_Put fs perm T src dst sb =
     (case SBPlatform_ExecuteConnected T
             (\<lambda>platform_sp.
                if FileSystem_Exists fs src then
                  (let permissions0 = FileSystem_GetPermissions fs src;
                       permissions =
                         (if permissions0 = 0 then
                            (if FileSystem_IsDirectory fs src
                             then eFilePermissionsDirectoryDefault perm
                             else eFilePermissionsFileDefault perm)
                          else permissions0)
                   in no_capture
                        (delegate (Call_PutFile src dst permissions)
                           (Platform_PutFile T src dst permissions) platform_sp))
                else no_capture (Status_Error (src_doesnt_exist (GetPath src)), platform_sp))
             () sb of
        ((sb_error, _), sb') \<Rightarrow> (sb_error, sb'))"

text \<open>\<^verbatim>\<open>Install\<close>, lines 559-571.\<close>

definition SBPlatform_Install ::
  "FileSystem \<Rightarrow> ('p, 'l) Platform \<Rightarrow> FileSpec \<Rightarrow> FileSpec
     \<Rightarrow> ('p, 'l) SBPlatform \<Rightarrow> SBError \<times> ('p, 'l) SBPlatform" where
  "SBPlatform_Install fs T src dst sb =
     (case SBPlatform_ExecuteConnected T
             (\<lambda>platform_sp.
                if FileSystem_Exists fs src then
                  no_capture
                    (delegate (Call_Install src dst) (Platform_Install T src dst) platform_sp)
                else no_capture (Status_Error (src_doesnt_exist (GetPath src)), platform_sp))
             () sb of
        ((sb_error, _), sb') \<Rightarrow> (sb_error, sb'))"

text \<open>
  \<^verbatim>\<open>Run\<close>, lines 573-595. The closure captures \<open>shell_command\<close> by reference: the
  result carries it as the call leaves it. \<^verbatim>\<open>RunShellCommand\<close> gets the addresses of
  \<open>m_status\<close>, \<open>m_signo\<close> and \<open>m_output\<close>: it is given their contents and returns the
  new ones.
\<close>

definition SBPlatform_Run ::
  "('p, 'l) Platform \<Rightarrow> PlatformShellCommand \<Rightarrow> ('p, 'l) SBPlatform
     \<Rightarrow> (SBError \<times> PlatformShellCommand) \<times> ('p, 'l) SBPlatform" where
  "SBPlatform_Run T shell_command sb =
     SBPlatform_ExecuteConnected T
       (\<lambda>platform_sp.
          case SBPlatformShellCommand_GetCommand shell_command of
            None \<Rightarrow> ((Status_Error ''invalid shell command (empty)'', shell_command), platform_sp)
          | Some command \<Rightarrow>
              (let (working_dir, shell_command1) =
                     (case SBPlatformShellCommand_GetWorkingDirectory shell_command of
                        None \<Rightarrow>
                          (let working_dir = Platform_GetWorkingDirectory T (fst platform_sp)
                           in (working_dir,
                               case working_dir of
                                 Some w \<Rightarrow>
                                   SBPlatformShellCommand_SetWorkingDirectory (Some w) shell_command
                               | None \<Rightarrow> shell_command))
                      | Some w \<Rightarrow> (Some w, shell_command));
                   dir = FileSpec_of_cstr working_dir
               in case delegate
                         (Call_RunShellCommand (m_shell shell_command1) command dir
                            (m_timeout shell_command1))
                         (Platform_RunShellCommand T (m_shell shell_command1) command dir
                            (m_status shell_command1, m_signo shell_command1,
                             m_output shell_command1)
                            (m_timeout shell_command1))
                         platform_sp of
                    ((st, (status, signo, output)), conn) \<Rightarrow>
                      ((st, shell_command1\<lparr>m_output := output, m_status := status,
                                           m_signo := signo\<rparr>), conn)))
       shell_command sb"

text \<open>
  \<^verbatim>\<open>Launch\<close>, lines 597-606: the launch info is copied out of \<open>launch_info\<close>, handed
  to the transport, and written back.
\<close>

definition SBPlatform_Launch ::
  "('p, 'l) Platform \<Rightarrow> 'l \<Rightarrow> ('p, 'l) SBPlatform \<Rightarrow> (SBError \<times> 'l) \<times> ('p, 'l) SBPlatform" where
  "SBPlatform_Launch T launch_info sb =
     SBPlatform_ExecuteConnected T
       (\<lambda>platform_sp.
          (let info = launch_info
           in case delegate (Call_LaunchProcess info) (Platform_LaunchProcess T info)
                     platform_sp of
                ((error, info'), conn) \<Rightarrow> ((error, info'), conn)))
       launch_info sb"

text \<open>\<^verbatim>\<open>Kill\<close>, lines 608-613.\<close>

definition SBPlatform_Kill ::
  "('p, 'l) Platform \<Rightarrow> pid_t \<Rightarrow> ('p, 'l) SBPlatform \<Rightarrow> SBError \<times> ('p, 'l) SBPlatform" where
  "SBPlatform_Kill T pid sb =
     (case SBPlatform_ExecuteConnected T
             (\<lambda>platform_sp.
                no_capture
                  (delegate (Call_KillProcess pid) (Platform_KillProcess T pid) platform_sp))
             () sb of
        ((sb_error, _), sb') \<Rightarrow> (sb_error, sb'))"

section \<open>A sample transport\<close>

text \<open>
  A platform object whose state is its connected flag and its working directory. Every
  primitive succeeds; connecting sets the flag, a shell command reports status 0, no
  signal, and its command line as output.
\<close>

definition sample_platform :: "(bool \<times> cstr, nat) Platform" where
  "sample_platform =
     \<lparr> Platform_IsConnected = (\<lambda>p. fst p),
       Platform_GetWorkingDirectory = (\<lambda>p. snd p),
       Platform_ConnectRemote = (\<lambda>args p. (Status_OK, (True, snd p))),
       Platform_GetFile = (\<lambda>src dst p. (Status_OK, p)),
       Platform_PutFile = (\<lambda>src dst permissions p. (Status_OK, p)),
       Platform_Install = (\<lambda>src dst p. (Status_OK, p)),
       Platform_RunShellCommand =
         (\<lambda>shell command dir res timeout p. ((Status_OK, (0, 0, command)), p)),
       Platform_LaunchProcess = (\<lambda>info p. ((Status_OK, Suc info), p)),
       Platform_KillProcess = (\<lambda>pid p. (Status_OK, p)) \<rparr>"

definition sample_fs :: FileSystem where
  "sample_fs =
     \<lparr> FileSystem_Exists = (\<lambda>f. GetPath f \<in> set [''/tmp'', ''/tmp/a.out'', ''/tmp/unknown'']),
       FileSystem_GetPermissions = (\<lambda>f. if GetPath f = ''/tmp/a.out'' then 0x1ED else 0),
       FileSystem_IsDirectory = (\<lambda>f. GetPath f = ''/tmp'') \<rparr>"

definition sample_permissions :: FilePermissions where
  "sample_permissions =
     \<lparr> eFilePermissionsFileDefault = 0x180, eFilePermissionsDirectoryDefault = 0x1C0 \<rparr>"

definition sample_invalid :: "(bool \<times> cstr, nat) SBPlatform" where
  "sample_invalid = \<lparr> m_opaque_sp = None, transport_calls = [] \<rparr>"

definition sample_offline :: "(bool \<times> cstr, nat) SBPlatform" where
  "sample_offline = \<lparr> m_opaque_sp = Some (False, Some ''/home''), transport_calls = [] \<rparr>"

definition sample_online :: "(bool \<times> cstr, nat) SBPlatform" where
  "sample_online = \<lparr> m_opaque_sp = Some (True, Some ''/home''), transport_calls = [] \<rparr>"

section \<open>The gate\<close>

lemma ExecuteConnected_invalid:
  "m_opaque_sp sb = None \<Longrightarrow>
   SBPlatform_ExecuteConnected T func c sb = ((Status_Error ''invalid platform'', c), sb)"
  by (simp add: SBPlatform_ExecuteConnected_def)

lemma ExecuteConnected_not_connected:
  "m_opaque_sp sb = Some p \<Longrightarrow> \<not> Platform_IsConnected T p \<Longrightarrow>
   SBPlatform_ExecuteConnected T func c sb = ((Status_Error ''not connected'', c), sb)"
  by (simp add: SBPlatform_ExecuteConnected_def)

lemma ExecuteConnected_connected:
  "m_opaque_sp sb = Some p \<Longrightarrow> Platform_IsConnected T p \<Longrightarrow>
   SBPlatform_ExecuteConnected T func c sb =
     (fst (func (p, transport_calls sb)),
      sb\<lparr>m_opaque_sp := Some (fst (snd (func (p, transport_calls sb)))),
         transport_calls := snd (snd (func (p, transport_calls sb)))\<rparr>)"
  by (simp add: SBPlatform_ExecuteConnected_def split: prod.split)

lemma delegate_eq:
  "delegate c f (p, tr) = (fst (f p), (snd (f p), tr @ [c]))"
  by (simp add: delegate_def split: prod.split)

text \<open>
  C1, as the claim states it, fails for \<^verbatim>\<open>Get\<close>: \<^verbatim>\<open>Get\<close> does not go through
  \<^verbatim>\<open>ExecuteConnected\<close> and never asks \<^verbatim>\<open>IsConnected\<close>. On a valid identity that is
  not connected, with a transport whose fetch primitive succeeds, \<^verbatim>\<open>Get\<close> returns
  success, not "not connected".
\<close>

theorem Get_disconnected_not_gated:
  "m_opaque_sp \<lparr>m_opaque_sp = Some (False, Some ''/home''), transport_calls = []\<rparr>
     = Some (False, Some ''/home'') \<and>
   \<not> Platform_IsConnected sample_platform (False, Some ''/home'') \<and>
   fst (SBPlatform_Get sample_platform (FileSpec ''/remote/a.out'') (FileSpec ''/tmp/a.out'')
          \<lparr>m_opaque_sp = Some (False, Some ''/home''), transport_calls = []\<rparr>)
     \<noteq> Status_Error ''not connected''"
  by (simp add: SBPlatform_Get_def sample_platform_def delegate_def)

text \<open>
  C1, amended: \<^verbatim>\<open>Run\<close>, \<^verbatim>\<open>Put\<close>, \<^verbatim>\<open>Install\<close>, \<^verbatim>\<open>Launch\<close> and \<^verbatim>\<open>Kill\<close> fail with
  "not connected" whenever the identity is valid but not connected, and all six
  operations, \<^verbatim>\<open>Get\<close> included, fail with "invalid platform" whenever the identity is
  invalid. \<^verbatim>\<open>Get\<close> on a valid but disconnected identity returns what the transport's
  fetch primitive returns.
\<close>

theorem gated_operations_errors:
  "(m_opaque_sp sb = None \<longrightarrow>
      fst (fst (SBPlatform_Run T shell_command sb)) = Status_Error ''invalid platform'' \<and>
      fst (SBPlatform_Get T src dst sb) = Status_Error ''invalid platform'' \<and>
      fst (SBPlatform_Put fs perm T src dst sb) = Status_Error ''invalid platform'' \<and>
      fst (SBPlatform_Install fs T src dst sb) = Status_Error ''invalid platform'' \<and>
      fst (fst (SBPlatform_Launch T launch_info sb)) = Status_Error ''invalid platform'' \<and>
      fst (SBPlatform_Kill T pid sb) = Status_Error ''invalid platform'') \<and>
   (\<forall>p. m_opaque_sp sb = Some p \<and> \<not> Platform_IsConnected T p \<longrightarrow>
      fst (fst (SBPlatform_Run T shell_command sb)) = Status_Error ''not connected'' \<and>
      fst (SBPlatform_Put fs perm T src dst sb) = Status_Error ''not connected'' \<and>
      fst (SBPlatform_Install fs T src dst sb) = Status_Error ''not connected'' \<and>
      fst (fst (SBPlatform_Launch T launch_info sb)) = Status_Error ''not connected'' \<and>
      fst (SBPlatform_Kill T pid sb) = Status_Error ''not connected'' \<and>
      fst (SBPlatform_Get T src dst sb) = fst (Platform_GetFile T src dst p))"
  by (simp add: SBPlatform_Run_def SBPlatform_Put_def SBPlatform_Install_def
      SBPlatform_Launch_def SBPlatform_Kill_def SBPlatform_Get_def
      ExecuteConnected_invalid ExecuteConnected_not_connected delegate_eq)

theorem gated_operations_errors_witness:
  "m_opaque_sp sample_invalid = None \<and>
   fst (fst (SBPlatform_Run sample_platform (SBPlatformShellCommand_new1 (Some ''ls'')) sample_invalid))
     = Status_Error ''invalid platform'' \<and>
   fst (SBPlatform_Get sample_platform (FileSpec ''/tmp/a.out'') (FileSpec ''/remote/a.out'')
          sample_invalid) = Status_Error ''invalid platform'' \<and>
   fst (SBPlatform_Kill sample_platform 42 sample_invalid) = Status_Error ''invalid platform'' \<and>
   m_opaque_sp sample_offline = Some (False, Some ''/home'') \<and>
   \<not> Platform_IsConnected sample_platform (False, Some ''/home'') \<and>
   fst (fst (SBPlatform_Run sample_platform (SBPlatformShellCommand_new1 (Some ''ls'')) sample_offline))
     = Status_Error ''not connected'' \<and>
   fst (SBPlatform_Put sample_fs sample_permissions sample_platform (FileSpec ''/tmp/a.out'')
          (FileSpec ''/remote/a.out'') sample_offline) = Status_Error ''not connected'' \<and>
   fst (SBPlatform_Install sample_fs sample_platform (FileSpec ''/tmp/a.out'')
          (FileSpec ''/remote/a.out'') sample_offline) = Status_Error ''not connected'' \<and>
   fst (fst (SBPlatform_Launch sample_platform 7 sample_offline)) = Status_Error ''not connected'' \<and>
   fst (SBPlatform_Kill sample_platform 42 sample_offline) = Status_Error ''not connected'' \<and>
   fst (SBPlatform_Get sample_platform (FileSpec ''/tmp/a.out'') (FileSpec ''/remote/a.out'')
          sample_offline) = Status_OK"
proof -
  have invalid: "m_opaque_sp sample_invalid = None"
    by (simp add: sample_invalid_def)
  have offline: "m_opaque_sp sample_offline = Some (False, Some ''/home'') \<and>
      \<not> Platform_IsConnected sample_platform (False, Some ''/home'')"
    by (simp add: sample_offline_def sample_platform_def)
  have fetch: "fst (Platform_GetFile sample_platform (FileSpec ''/tmp/a.out'')
      (FileSpec ''/remote/a.out'') (False, Some ''/home'')) = Status_OK"
    by (simp add: sample_platform_def)
  note at_invalid = gated_operations_errors [of sample_invalid sample_platform
        "SBPlatformShellCommand_new1 (Some ''ls'')" "FileSpec ''/tmp/a.out''"
        "FileSpec ''/remote/a.out''" sample_fs sample_permissions 7 42,
        THEN conjunct1, rule_format, OF invalid]
  note at_offline = gated_operations_errors [of sample_offline sample_platform
        "SBPlatformShellCommand_new1 (Some ''ls'')" "FileSpec ''/tmp/a.out''"
        "FileSpec ''/remote/a.out''" sample_fs sample_permissions 7 42,
        THEN conjunct2, rule_format, OF offline]
  show ?thesis
    using invalid offline fetch at_invalid at_offline by simp
qed

section \<open>File transfer\<close>

text \<open>
  C2: on a valid connected identity, \<^verbatim>\<open>Put\<close> and \<^verbatim>\<open>Install\<close> with a source that does
  not exist locally fail with the formatted message and leave the platform object and
  the history of transport calls as they were; \<^verbatim>\<open>Get\<close> calls the fetch primitive for
  every source (it has no access to the local file system at all) and returns its result.
\<close>

theorem missing_src_no_transport_call:
  "m_opaque_sp sb = Some p \<and> Platform_IsConnected T p \<longrightarrow>
     (\<not> FileSystem_Exists fs src \<longrightarrow>
        SBPlatform_Put fs perm T src dst sb =
          (Status_Error (src_doesnt_exist (GetPath src)), sb) \<and>
        SBPlatform_Install fs T src dst sb =
          (Status_Error (src_doesnt_exist (GetPath src)), sb)) \<and>
     SBPlatform_Get T src dst sb =
       (fst (Platform_GetFile T src dst p),
        sb\<lparr>m_opaque_sp := Some (snd (Platform_GetFile T src dst p)),
           transport_calls := transport_calls sb @ [Call_GetFile src dst]\<rparr>)"
  by (simp add: SBPlatform_Put_def SBPlatform_Install_def SBPlatform_Get_def
      ExecuteConnected_connected delegate_eq no_capture_def)

theorem missing_src_no_transport_call_witness:
  "m_opaque_sp sample_online = Some (True, Some ''/home'') \<and>
   Platform_IsConnected sample_platform (True, Some ''/home'') \<and>
   \<not> FileSystem_Exists sample_fs (FileSpec ''/nowhere'') \<and>
   SBPlatform_Put sample_fs sample_permissions sample_platform (FileSpec ''/nowhere'')
       (FileSpec ''/remote/x'') sample_online =
     (Status_Error (CHR 0x27 # ''src'' @ CHR 0x27 # '' argument doesn't exist: '' @
         CHR 0x27 # ''/nowhere'' @ [CHR 0x27]), sample_online) \<and>
   SBPlatform_Install sample_fs sample_platform (FileSpec ''/nowhere'')
       (FileSpec ''/remote/x'') sample_online =
     (Status_Error (CHR 0x27 # ''src'' @ CHR 0x27 # '' argument doesn't exist: '' @
         CHR 0x27 # ''/nowhere'' @ [CHR 0x27]), sample_online) \<and>
   SBPlatform_Get sample_platform (FileSpec ''/nowhere'') (FileSpec ''/remote/x'') sample_online =
     (Status_OK,
      \<lparr>m_opaque_sp = Some (True, Some ''/home''),
       transport_calls = [Call_GetFile (FileSpec ''/nowhere'') (FileSpec ''/remote/x'')]\<rparr>)"
proof -
  have online: "m_opaque_sp sample_online = Some (True, Some ''/home'') \<and>
      Platform_IsConnected sample_platform (True, Some ''/home'')"
    by (simp add: sample_online_def sample_platform_def)
  have missing: "\<not> FileSystem_Exists sample_fs (FileSpec ''/nowhere'')"
    by (simp add: sample_fs_def)
  note inst = missing_src_no_transport_call [of sample_online "(True, Some ''/home'')"
      sample_platform sample_fs "FileSpec ''/nowhere''" sample_permissions
      "FileSpec ''/remote/x''", rule_format, OF online]
  show ?thesis
    using online missing inst
    by (simp add: src_doesnt_exist_def sample_platform_def sample_online_def)
qed

text \<open>
  C3: on a valid connected identity and a source that exists locally, \<^verbatim>\<open>Put\<close> makes
  exactly one transport call, the upload primitive, with the permission bits read from
  the local file system, except that a read of zero is replaced by the directory
  default when the source is a directory and by the file default otherwise; the result
  of \<^verbatim>\<open>Put\<close> is the result of that call.
\<close>

theorem Put_resolved_permissions:
  "m_opaque_sp sb = Some p \<and> Platform_IsConnected T p \<and> FileSystem_Exists fs src \<longrightarrow>
     (let permissions =
            (if FileSystem_GetPermissions fs src = 0
             then (if FileSystem_IsDirectory fs src
                   then eFilePermissionsDirectoryDefault perm
                   else eFilePermissionsFileDefault perm)
             else FileSystem_GetPermissions fs src)
      in SBPlatform_Put fs perm T src dst sb =
           (fst (Platform_PutFile T src dst permissions p),
            sb\<lparr>m_opaque_sp := Some (snd (Platform_PutFile T src dst permissions p)),
               transport_calls := transport_calls sb @ [Call_PutFile src dst permissions]\<rparr>))"
  by (simp add: SBPlatform_Put_def ExecuteConnected_connected delegate_eq no_capture_def Let_def)

theorem Put_resolved_permissions_witness:
  "m_opaque_sp sample_online = Some (True, Some ''/home'') \<and>
   Platform_IsConnected sample_platform (True, Some ''/home'') \<and>
   FileSystem_Exists sample_fs (FileSpec ''/tmp/a.out'') \<and>
   FileSystem_Exists sample_fs (FileSpec ''/tmp/unknown'') \<and>
   FileSystem_Exists sample_fs (FileSpec ''/tmp'') \<and>
   transport_calls (snd (SBPlatform_Put sample_fs sample_permissions sample_platform
       (FileSpec ''/tmp/a.out'') (FileSpec ''/remote/x'') sample_online)) =
     [Call_PutFile (FileSpec ''/tmp/a.out'') (FileSpec ''/remote/x'') 0x1ED] \<and>
   transport_calls (snd (SBPlatform_Put sample_fs sample_permissions sample_platform
       (FileSpec ''/tmp/unknown'') (FileSpec ''/remote/x'') sample_online)) =
     [Call_PutFile (FileSpec ''/tmp/unknown'') (FileSpec ''/remote/x'') 0x180] \<and>
   transport_calls (snd (SBPlatform_Put sample_fs sample_permissions sample_platform
       (FileSpec ''/tmp'') (FileSpec ''/remote/x'') sample_online)) =
     [Call_PutFile (FileSpec ''/tmp'') (FileSpec ''/remote/x'') 0x1C0]"
proof -
  have online: "m_opaque_sp sample_online = Some (True, Some ''/home'') \<and>
      Platform_IsConnected sample_platform (True, Some ''/home'')"
    by (simp add: sample_online_def sample_platform_def)
  have ex_file: "FileSystem_Exists sample_fs (FileSpec ''/tmp/a.out'')"
    and ex_unknown: "FileSystem_Exists sample_fs (FileSpec ''/tmp/unknown'')"
    and ex_dir: "FileSystem_Exists sample_fs (FileSpec ''/tmp'')"
    by (simp_all add: sample_fs_def)
  note at_file = Put_resolved_permissions [of sample_online "(True, Some ''/home'')"
      sample_platform sample_fs "FileSpec ''/tmp/a.out''" sample_permissions
      "FileSpec ''/remote/x''", rule_format, OF conjI [OF online [THEN conjunct1]
        conjI [OF online [THEN conjunct2] ex_file]]]
  note at_unknown = Put_resolved_permissions [of sample_online "(True, Some ''/home'')"
      sample_platform sample_fs "FileSpec ''/tmp/unknown''" sample_permissions
      "FileSpec ''/remote/x''", rule_format, OF conjI [OF online [THEN conjunct1]
        conjI [OF online [THEN conjunct2] ex_unknown]]]
  note at_dir = Put_resolved_permissions [of sample_online "(True, Some ''/home'')"
      sample_platform sample_fs "FileSpec ''/tmp''" sample_permissions
      "FileSpec ''/remote/x''", rule_format, OF conjI [OF online [THEN conjunct1]
        conjI [OF online [THEN conjunct2] ex_dir]]]
  have a: "transport_calls (snd (SBPlatform_Put sample_fs sample_permissions sample_platform
       (FileSpec ''/tmp/a.out'') (FileSpec ''/remote/x'') sample_online)) =
     [Call_PutFile (FileSpec ''/tmp/a.out'') (FileSpec ''/remote/x'') 0x1ED]"
    using at_file by (simp add: Let_def sample_fs_def sample_permissions_def sample_online_def)
  have b: "transport_calls (snd (SBPlatform_Put sample_fs sample_permissions sample_platform
       (FileSpec ''/tmp/unknown'') (FileSpec ''/remote/x'') sample_online)) =
     [Call_PutFile (FileSpec ''/tmp/unknown'') (FileSpec ''/remote/x'') 0x180]"
    using at_unknown by (simp add: Let_def sample_fs_def sample_permissions_def sample_online_def)
  have c: "transport_calls (snd (SBPlatform_Put sample_fs sample_permissions sample_platform
       (FileSpec ''/tmp'') (FileSpec ''/remote/x'') sample_online)) =
     [Call_PutFile (FileSpec ''/tmp'') (FileSpec ''/remote/x'') 0x1C0]"
    using at_dir by (simp add: Let_def sample_fs_def sample_permissions_def sample_online_def)
  show ?thesis
    using online ex_file ex_unknown ex_dir a b c by simp
qed

section \<open>Connecting\<close>

text \<open>
  C4: \<^verbatim>\<open>ConnectRemote\<close> fails (with "invalid platform", and without a transport
  call) whenever the identity is invalid or the URL of the options is empty; otherwise
  it calls the transport's connect routine once, with the argument list that holds
  just the URL, and returns the status of that call as it is.
\<close>

theorem ConnectRemote_forwards_url:
  "(m_opaque_sp sb = None \<or> m_url connect_options = [] \<longrightarrow>
      SBPlatform_ConnectRemote T connect_options sb = (Status_Error ''invalid platform'', sb)) \<and>
   (\<forall>p. m_opaque_sp sb = Some p \<and> m_url connect_options \<noteq> [] \<longrightarrow>
      SBPlatform_ConnectRemote T connect_options sb =
        (fst (Platform_ConnectRemote T [m_url connect_options] p),
         sb\<lparr>m_opaque_sp := Some (snd (Platform_ConnectRemote T [m_url connect_options] p)),
            transport_calls :=
              transport_calls sb @ [Call_ConnectRemote [m_url connect_options]]\<rparr>))"
  by (auto simp add: SBPlatform_ConnectRemote_def SBPlatformConnectOptions_GetURL_def
      delegate_eq Let_def split: option.split)

theorem ConnectRemote_forwards_url_witness:
  "m_opaque_sp sample_invalid = None \<and>
   SBPlatform_ConnectRemote sample_platform
       (PlatformConnectOptions_new (Some ''connect://host:1234'')) sample_invalid =
     (Status_Error ''invalid platform'', sample_invalid) \<and>
   m_url (PlatformConnectOptions_new None) = [] \<and>
   SBPlatform_ConnectRemote sample_platform (PlatformConnectOptions_new None) sample_offline =
     (Status_Error ''invalid platform'', sample_offline) \<and>
   m_opaque_sp sample_offline = Some (False, Some ''/home'') \<and>
   m_url (PlatformConnectOptions_new (Some ''connect://host:1234'')) \<noteq> [] \<and>
   SBPlatform_ConnectRemote sample_platform
       (PlatformConnectOptions_new (Some ''connect://host:1234'')) sample_offline =
     (Status_OK,
      \<lparr>m_opaque_sp = Some (True, Some ''/home''),
       transport_calls = [Call_ConnectRemote [''connect://host:1234'']]\<rparr>)"
proof -
  have invalid: "m_opaque_sp sample_invalid = None"
    by (simp add: sample_invalid_def)
  have no_url: "m_url (PlatformConnectOptions_new None) = []"
    by (simp add: PlatformConnectOptions_new_def)
  have offline: "m_opaque_sp sample_offline = Some (False, Some ''/home'') \<and>
      m_url (PlatformConnectOptions_new (Some ''connect://host:1234'')) \<noteq> []"
    by (simp add: sample_offline_def PlatformConnectOptions_new_def)
  note at_invalid = ConnectRemote_forwards_url [of sample_invalid
      "PlatformConnectOptions_new (Some ''connect://host:1234'')" sample_platform,
      THEN conjunct1, rule_format, OF disjI1 [OF invalid]]
  note at_no_url = ConnectRemote_forwards_url [of sample_offline
      "PlatformConnectOptions_new None" sample_platform,
      THEN conjunct1, rule_format, OF disjI2 [OF no_url]]
  note at_url = ConnectRemote_forwards_url [of sample_offline
      "PlatformConnectOptions_new (Some ''connect://host:1234'')" sample_platform,
      THEN conjunct2, rule_format, OF offline]
  have connected: "SBPlatform_ConnectRemote sample_platform
       (PlatformConnectOptions_new (Some ''connect://host:1234'')) sample_offline =
     (Status_OK,
      \<lparr>m_opaque_sp = Some (True, Some ''/home''),
       transport_calls = [Call_ConnectRemote [''connect://host:1234'']]\<rparr>)"
    using at_url
    by (simp add: sample_platform_def sample_offline_def PlatformConnectOptions_new_def)
  show ?thesis
    using invalid no_url offline at_invalid at_no_url connected by simp
qed

section \<open>Running a shell command\<close>

text \<open>
  C5, as the claim states it, fails where the platform object has no working
  directory: \<^verbatim>\<open>GetWorkingDirectory().GetCString()\<close> is null, the guard of line 585
  skips the assignment, and after \<^verbatim>\<open>Run\<close> the shell command's working directory is
  as unset as before, on a valid connected identity and a non-empty command.
\<close>

theorem Run_null_directory_stays_unset:
  "m_opaque_sp \<lparr>m_opaque_sp = Some (True, None), transport_calls = []\<rparr> = Some (True, None) \<and>
   Platform_IsConnected sample_platform (True, None) \<and>
   Platform_GetWorkingDirectory sample_platform (True, None) = None \<and>
   m_command (SBPlatformShellCommand_new1 (Some ''echo hi'')) = ''echo hi'' \<and>
   SBPlatformShellCommand_GetWorkingDirectory (SBPlatformShellCommand_new1 (Some ''echo hi''))
     = None \<and>
   fst (fst (SBPlatform_Run sample_platform (SBPlatformShellCommand_new1 (Some ''echo hi''))
          \<lparr>m_opaque_sp = Some (True, None), transport_calls = []\<rparr>)) = Status_OK \<and>
   SBPlatformShellCommand_GetWorkingDirectory
       (snd (fst (SBPlatform_Run sample_platform (SBPlatformShellCommand_new1 (Some ''echo hi''))
          \<lparr>m_opaque_sp = Some (True, None), transport_calls = []\<rparr>))) = None \<and>
   m_working_dir
       (snd (fst (SBPlatform_Run sample_platform (SBPlatformShellCommand_new1 (Some ''echo hi''))
          \<lparr>m_opaque_sp = Some (True, None), transport_calls = []\<rparr>))) = []"
  by (simp add: SBPlatform_Run_def SBPlatform_ExecuteConnected_def sample_platform_def
      SBPlatformShellCommand_new1_def PlatformShellCommand_new1_def StringRef_def
      SBPlatformShellCommand_GetCommand_def SBPlatformShellCommand_GetWorkingDirectory_def
      FileSpec_of_cstr_def delegate_def Let_def)

text \<open>
  C5, amended: on a valid connected identity, for a shell command with a non-empty
  command and no working directory, \<^verbatim>\<open>Run\<close> stores the platform object's working
  directory in the shell command whenever that directory is present and non-empty,
  the caller reads it there afterwards, and the one transport call made, the shell
  primitive, is given that directory. When the platform object's working directory is
  null or empty, the shell command's working directory stays unset and the shell
  primitive is given the empty path.
\<close>

theorem Run_fills_working_directory:
  "m_opaque_sp sb = Some p \<and> Platform_IsConnected T p \<and>
   m_command shell_command \<noteq> [] \<and> m_working_dir shell_command = [] \<longrightarrow>
     (\<forall>w. Platform_GetWorkingDirectory T p = Some w \<and> w \<noteq> [] \<longrightarrow>
        m_working_dir (snd (fst (SBPlatform_Run T shell_command sb))) = w \<and>
        SBPlatformShellCommand_GetWorkingDirectory
            (snd (fst (SBPlatform_Run T shell_command sb))) = Some w \<and>
        transport_calls (snd (SBPlatform_Run T shell_command sb)) =
          transport_calls sb @
            [Call_RunShellCommand (m_shell shell_command) (m_command shell_command)
               (FileSpec w) (m_timeout shell_command)]) \<and>
     (StringRef (Platform_GetWorkingDirectory T p) = [] \<longrightarrow>
        m_working_dir (snd (fst (SBPlatform_Run T shell_command sb))) = [] \<and>
        SBPlatformShellCommand_GetWorkingDirectory
            (snd (fst (SBPlatform_Run T shell_command sb))) = None \<and>
        transport_calls (snd (SBPlatform_Run T shell_command sb)) =
          transport_calls sb @
            [Call_RunShellCommand (m_shell shell_command) (m_command shell_command)
               (FileSpec []) (m_timeout shell_command)])"
  by (simp add: SBPlatform_Run_def ExecuteConnected_connected SBPlatformShellCommand_GetCommand_def
      SBPlatformShellCommand_GetWorkingDirectory_def SBPlatformShellCommand_SetWorkingDirectory_def
      delegate_eq StringRef_def FileSpec_of_cstr_def Let_def split: option.split prod.split)

theorem Run_fills_working_directory_witness:
  "m_opaque_sp sample_online = Some (True, Some ''/home'') \<and>
   Platform_IsConnected sample_platform (True, Some ''/home'') \<and>
   m_command (SBPlatformShellCommand_new1 (Some ''echo hi'')) \<noteq> [] \<and>
   m_working_dir (SBPlatformShellCommand_new1 (Some ''echo hi'')) = [] \<and>
   Platform_GetWorkingDirectory sample_platform (True, Some ''/home'') = Some ''/home'' \<and>
   m_working_dir (snd (fst (SBPlatform_Run sample_platform
       (SBPlatformShellCommand_new1 (Some ''echo hi'')) sample_online))) = ''/home'' \<and>
   SBPlatformShellCommand_GetWorkingDirectory (snd (fst (SBPlatform_Run sample_platform
       (SBPlatformShellCommand_new1 (Some ''echo hi'')) sample_online))) = Some ''/home'' \<and>
   transport_calls (snd (SBPlatform_Run sample_platform
       (SBPlatformShellCommand_new1 (Some ''echo hi'')) sample_online)) =
     [Call_RunShellCommand [] ''echo hi'' (FileSpec ''/home'') None] \<and>
   m_opaque_sp \<lparr>m_opaque_sp = Some (True, Some []), transport_calls = []\<rparr>
     = Some (True, Some []) \<and>
   Platform_IsConnected sample_platform (True, Some []) \<and>
   StringRef (Platform_GetWorkingDirectory sample_platform (True, Some [])) = [] \<and>
   m_working_dir (snd (fst (SBPlatform_Run sample_platform
       (SBPlatformShellCommand_new1 (Some ''echo hi''))
       \<lparr>m_opaque_sp = Some (True, Some []), transport_calls = []\<rparr>))) = [] \<and>
   SBPlatformShellCommand_GetWorkingDirectory (snd (fst (SBPlatform_Run sample_platform
       (SBPlatformShellCommand_new1 (Some ''echo hi''))
       \<lparr>m_opaque_sp = Some (True, Some []), transport_calls = []\<rparr>))) = None \<and>
   transport_calls (snd (SBPlatform_Run sample_platform
       (SBPlatformShellCommand_new1 (Some ''echo hi''))
       \<lparr>m_opaque_sp = Some (True, Some []), transport_calls = []\<rparr>)) =
     [Call_RunShellCommand [] ''echo hi'' (FileSpec []) None]"
proof -
  have hyps: "m_opaque_sp sample_online = Some (True, Some ''/home'') \<and>
      Platform_IsConnected sample_platform (True, Some ''/home'') \<and>
      m_command (SBPlatformShellCommand_new1 (Some ''echo hi'')) \<noteq> [] \<and>
      m_working_dir (SBPlatformShellCommand_new1 (Some ''echo hi'')) = []"
    by (simp add: sample_online_def sample_platform_def SBPlatformShellCommand_new1_def
        PlatformShellCommand_new1_def StringRef_def)
  have present: "Platform_GetWorkingDirectory sample_platform (True, Some ''/home'')
      = Some ''/home'' \<and> ''/home'' \<noteq> []"
    by (simp add: sample_platform_def)
  have hyps_empty:
    "m_opaque_sp \<lparr>m_opaque_sp = Some (True, Some []), transport_calls = []\<rparr>
        = Some (True, Some []) \<and>
      Platform_IsConnected sample_platform (True, Some []) \<and>
      m_command (SBPlatformShellCommand_new1 (Some ''echo hi'')) \<noteq> [] \<and>
      m_working_dir (SBPlatformShellCommand_new1 (Some ''echo hi'')) = []"
    by (simp add: sample_platform_def SBPlatformShellCommand_new1_def
        PlatformShellCommand_new1_def StringRef_def)
  have absent: "StringRef (Platform_GetWorkingDirectory sample_platform (True, Some [])) = []"
    by (simp add: sample_platform_def StringRef_def)
  note at_present = Run_fills_working_directory [of sample_online "(True, Some ''/home'')"
      sample_platform "SBPlatformShellCommand_new1 (Some ''echo hi'')",
      rule_format, OF hyps, THEN conjunct1, rule_format, OF present]
  note at_absent = Run_fills_working_directory
      [of "\<lparr>m_opaque_sp = Some (True, Some []), transport_calls = []\<rparr>" "(True, Some [])"
      sample_platform "SBPlatformShellCommand_new1 (Some ''echo hi'')",
      rule_format, OF hyps_empty, THEN conjunct2, rule_format, OF absent]
  have fields: "m_shell (SBPlatformShellCommand_new1 (Some ''echo hi'')) = [] \<and>
      m_command (SBPlatformShellCommand_new1 (Some ''echo hi'')) = ''echo hi'' \<and>
      m_timeout (SBPlatformShellCommand_new1 (Some ''echo hi'')) = None \<and>
      transport_calls sample_online = []"
    by (simp add: sample_online_def SBPlatformShellCommand_new1_def
        PlatformShellCommand_new1_def StringRef_def)
  show ?thesis
    using hyps present hyps_empty absent at_present at_absent fields by simp
qed

text \<open>
  C6: on a valid connected identity, \<^verbatim>\<open>Run\<close> on a shell command whose command is
  empty fails with "invalid shell command (empty)"; the shell command, the platform
  object and the history of transport calls are as before, so the shell primitive was
  not called.
\<close>

theorem Run_empty_command:
  "m_opaque_sp sb = Some p \<and> Platform_IsConnected T p \<and> m_command shell_command = [] \<longrightarrow>
     SBPlatform_Run T shell_command sb =
       ((Status_Error ''invalid shell command (empty)'', shell_command), sb)"
  by (simp add: SBPlatform_Run_def ExecuteConnected_connected SBPlatformShellCommand_GetCommand_def)

theorem Run_empty_command_witness:
  "m_opaque_sp sample_online = Some (True, Some ''/home'') \<and>
   Platform_IsConnected sample_platform (True, Some ''/home'') \<and>
   m_command (SBPlatformShellCommand_new1 None) = [] \<and>
   SBPlatform_Run sample_platform (SBPlatformShellCommand_new1 None) sample_online =
     ((Status_Error ''invalid shell command (empty)'', SBPlatformShellCommand_new1 None),
      sample_online) \<and>
   transport_calls (snd (SBPlatform_Run sample_platform (SBPlatformShellCommand_new1 None)
       sample_online)) = []"
proof -
  have hyps: "m_opaque_sp sample_online = Some (True, Some ''/home'') \<and>
      Platform_IsConnected sample_platform (True, Some ''/home'') \<and>
      m_command (SBPlatformShellCommand_new1 None) = []"
    by (simp add: sample_online_def sample_platform_def SBPlatformShellCommand_new1_def
        PlatformShellCommand_new1_def StringRef_def)
  note inst = Run_empty_command [of sample_online "(True, Some ''/home'')"
      sample_platform "SBPlatformShellCommand_new1 None", rule_format, OF hyps]
  have calls: "transport_calls sample_online = []"
    by (simp add: sample_online_def)
  show ?thesis
    using hyps inst calls by simp
qed

section \<open>The option and command values\<close>

text \<open>
  C7: for every options value and every input (a null pointer included), reading the
  URL back after \<^verbatim>\<open>SetURL\<close>, and the local cache directory back after
  \<^verbatim>\<open>SetLocalCacheDirectory\<close>, returns the input, where a null or empty input reads
  back as null; the value read is the one set last, and setting one of the two fields
  does not change what the other reads.
\<close>

theorem ConnectOptions_set_get:
  "SBPlatformConnectOptions_GetURL (SBPlatformConnectOptions_SetURL url opts) =
     (case url of None \<Rightarrow> None | Some s \<Rightarrow> if s = [] then None else Some s) \<and>
   SBPlatformConnectOptions_GetLocalCacheDirectory
       (SBPlatformConnectOptions_SetLocalCacheDirectory path opts) =
     (case path of None \<Rightarrow> None | Some s \<Rightarrow> if s = [] then None else Some s) \<and>
   SBPlatformConnectOptions_GetURL
       (SBPlatformConnectOptions_SetURL url (SBPlatformConnectOptions_SetURL url0 opts)) =
     SBPlatformConnectOptions_GetURL (SBPlatformConnectOptions_SetURL url opts) \<and>
   SBPlatformConnectOptions_GetLocalCacheDirectory
       (SBPlatformConnectOptions_SetLocalCacheDirectory path
          (SBPlatformConnectOptions_SetLocalCacheDirectory path0 opts)) =
     SBPlatformConnectOptions_GetLocalCacheDirectory
       (SBPlatformConnectOptions_SetLocalCacheDirectory path opts) \<and>
   SBPlatformConnectOptions_GetURL (SBPlatformConnectOptions_SetLocalCacheDirectory path opts) =
     SBPlatformConnectOptions_GetURL opts \<and>
   SBPlatformConnectOptions_GetLocalCacheDirectory (SBPlatformConnectOptions_SetURL url opts) =
     SBPlatformConnectOptions_GetLocalCacheDirectory opts"
  by (simp add: SBPlatformConnectOptions_GetURL_def SBPlatformConnectOptions_SetURL_def
      SBPlatformConnectOptions_GetLocalCacheDirectory_def
      SBPlatformConnectOptions_SetLocalCacheDirectory_def split: option.split)

text \<open>
  C8: \<^verbatim>\<open>Clear\<close> leaves the output empty and status and signal zero, leaves shell,
  command, working directory and timeout as they were, and any positive number of
  calls in a row gives the state that one call gives.
\<close>

theorem Clear_resets_results:
  "m_output (SBPlatformShellCommand_Clear c) = [] \<and>
   m_status (SBPlatformShellCommand_Clear c) = 0 \<and>
   m_signo (SBPlatformShellCommand_Clear c) = 0 \<and>
   m_shell (SBPlatformShellCommand_Clear c) = m_shell c \<and>
   m_command (SBPlatformShellCommand_Clear c) = m_command c \<and>
   m_working_dir (SBPlatformShellCommand_Clear c) = m_working_dir c \<and>
   m_timeout (SBPlatformShellCommand_Clear c) = m_timeout c \<and>
   (SBPlatformShellCommand_Clear ^^ Suc n) c = SBPlatformShellCommand_Clear c"
proof -
  have twice: "SBPlatformShellCommand_Clear (SBPlatformShellCommand_Clear d) =
      SBPlatformShellCommand_Clear d" for d
    by (simp add: SBPlatformShellCommand_Clear_def)
  have "(SBPlatformShellCommand_Clear ^^ Suc n) c = SBPlatformShellCommand_Clear c"
    by (induction n) (simp_all add: twice)
  then show ?thesis
    by (simp add: SBPlatformShellCommand_Clear_def)
qed

text \<open>
  C9: \<^verbatim>\<open>GetTimeoutSeconds\<close> after \<^verbatim>\<open>SetTimeoutSeconds(v)\<close> returns \<open>v\<close> for every
  32-bit \<open>v\<close>; for \<open>v = UINT32_MAX\<close> the stored timeout is absent and the getter
  returns \<open>UINT32_MAX\<close>, for every other \<open>v\<close> the stored count is \<open>v\<close> widened to 64
  bits.
\<close>

theorem TimeoutSeconds_set_get:
  "SBPlatformShellCommand_GetTimeoutSeconds (SBPlatformShellCommand_SetTimeoutSeconds v c) = v \<and>
   SBPlatformShellCommand_GetTimeoutSeconds
       (SBPlatformShellCommand_SetTimeoutSeconds UINT32_MAX c) = 0xFFFFFFFF \<and>
   m_timeout (SBPlatformShellCommand_SetTimeoutSeconds UINT32_MAX c) = None \<and>
   m_timeout (SBPlatformShellCommand_SetTimeoutSeconds v c) =
     (if v = 0xFFFFFFFF then None else Some (word_of_nat (unat v)))"
proof -
  have narrow: "(ucast (ucast v :: 64 word) :: 32 word) = v"
    by (rule ucast_up_ucast_id) (simp add: is_up)
  show ?thesis
    by (simp add: SBPlatformShellCommand_GetTimeoutSeconds_def
        SBPlatformShellCommand_SetTimeoutSeconds_def UINT32_MAX_def narrow)
qed

text \<open>
  C10: the two-argument constructor stores the command exactly when both the shell
  interpreter and the command are non-empty; with a null or empty interpreter
  \<^verbatim>\<open>GetCommand\<close> returns null whatever the command was, while the one-argument
  constructor keeps the same command.
\<close>

theorem new2_drops_command_without_shell:
  "SBPlatformShellCommand_GetCommand
       (SBPlatformShellCommand_new2 shell_interpreter shell_command) =
     (if StringRef shell_interpreter \<noteq> [] \<and> StringRef shell_command \<noteq> []
      then shell_command else None) \<and>
   SBPlatformShellCommand_GetCommand (SBPlatformShellCommand_new2 None shell_command) = None \<and>
   SBPlatformShellCommand_GetCommand (SBPlatformShellCommand_new2 (Some []) shell_command) = None \<and>
   SBPlatformShellCommand_GetCommand (SBPlatformShellCommand_new2 None (Some ''ls -l'')) = None \<and>
   SBPlatformShellCommand_GetCommand (SBPlatformShellCommand_new1 (Some ''ls -l'')) = Some ''ls -l''"
  by (simp add: SBPlatformShellCommand_GetCommand_def SBPlatformShellCommand_new2_def
      PlatformShellCommand_new2_def SBPlatformShellCommand_new1_def
      PlatformShellCommand_new1_def StringRef_def Let_def split: option.split)

end
